theory Spec2Isabelle
  imports Main "HOL-Library.Word"
begin

section \<open>CatClient HDRV0: the launcher core of \<open>Cat4k.py\<close>\<close>

text \<open>
  The class \<open>CatClientHDRV0\<close> keeps its state in attributes of one object and in two
  places of the file system (the settings file and the Java directory). Each method is
  modelled as a function from the state before the call to the outcome of the call and
  the state after it. What the surroundings decide is an input:
  \<^item> the reply of a network exchange (\<open>urlopen\<close>, \<open>read\<close>, \<open>decode\<close> and
    \<open>json.loads\<close> taken as one step) is an argument of the method;
  \<^item> the values \<open>uuid.uuid4()\<close> returns are a sequence, and the state counts how many
    have been drawn;
  \<^item> the module constants that come from \<open>os.path.expanduser\<close>, the platform test and
    \<open>os.path.join\<close> are fields of an environment record.
  Message boxes, network requests, directory creation, writes of the settings file and
  process spawns are appended to a trace, so that a theorem can say what a call did not do.

  Scope of the model. Calls into the file system succeed (the directories that hold the
  settings file exist and are writable); Tk calls do not raise; \<open>print\<close> is left out.
  Option values of the settings file are taken literally: \<open>configparser\<close>'s
  \<open>%\<close>-interpolation and its \<open>DEFAULT\<close> section are not modelled, so the model
  covers settings files with neither. JSON numbers are integers, and a \<open>char\<close> of the
  model stands for one character of a Python string.
\<close>

subsection \<open>Python values\<close>

datatype json =
    JNull
  | JBool bool
  | JNum int
  | JStr string
  | JArr "json list"
  | JObj "(string \<times> json) list"

text \<open>
  \<open>JObj kvs\<close> is the dict \<open>json.loads\<close> built: \<open>kvs\<close> are its items in order.
  \<open>JNull\<close> is Python's \<open>None\<close>.
\<close>

datatype py_exn =
    KeyError
  | TypeError
  | IndexError
  | URLError
  | HTTPError nat string "string option"
  | JSONDecodeError
  | UnicodeDecodeError
  | ParsingError
  | FileNotFoundError

text \<open>
  \<open>HTTPError code reason body\<close>: \<open>body\<close> is what \<open>e.read().decode()\<close> returns,
  \<open>None\<close> when the bytes of the error page are not valid UTF-8 and \<open>decode\<close> raises.
\<close>

datatype 'a outcome = Returned 'a | Raised py_exn

text \<open>\<open>x[k]\<close> with a string key: only a dict can be subscripted by a string.\<close>

fun subscript :: "json \<Rightarrow> string \<Rightarrow> py_exn + json" where
  "subscript (JObj kvs) k = (case map_of kvs k of None \<Rightarrow> Inl KeyError | Some v \<Rightarrow> Inr v)"
| "subscript _ k = Inl TypeError"

text \<open>\<open>for v in x\<close>: a list yields its elements, a dict its keys, a string its characters.\<close>

fun iterate :: "json \<Rightarrow> py_exn + json list" where
  "iterate (JArr xs) = Inr xs"
| "iterate (JObj kvs) = Inr (map (\<lambda>kv. JStr (fst kv)) kvs)"
| "iterate (JStr s) = Inr (map (\<lambda>c. JStr [c]) s)"
| "iterate _ = Inl TypeError"

text \<open>
  Keys of a Python dict are compared with \<open>==\<close> after hashing: \<open>True\<close> and \<open>1\<close> are the
  same key, lists and dicts cannot be keys.
\<close>

datatype key = KNone | KInt int | KStr string

fun hash_key :: "json \<Rightarrow> py_exn + key" where
  "hash_key JNull = Inr KNone"
| "hash_key (JBool b) = Inr (KInt (if b then 1 else 0))"
| "hash_key (JNum n) = Inr (KInt n)"
| "hash_key (JStr s) = Inr (KStr s)"
| "hash_key (JArr xs) = Inl TypeError"
| "hash_key (JObj kvs) = Inl TypeError"

text \<open>\<open>d[k] = v\<close> on an insertion-ordered dict: an existing key keeps its place.\<close>

fun dict_set :: "('k \<times> 'v) list \<Rightarrow> 'k \<Rightarrow> 'v \<Rightarrow> ('k \<times> 'v) list" where
  "dict_set [] k v = [(k, v)]"
| "dict_set (p # ps) k v = (if fst p = k then (k, v) # ps else p # dict_set ps k v)"

subsection \<open>The settings document\<close>

type_synonym options = "(string \<times> string) list"
type_synonym ini = "(string \<times> options) list"

text \<open>\<open>config[sec]\<close>, \<open>key in config[sec]\<close>, \<open>config[sec][key]\<close> and \<open>config[sec][key] = v\<close>.\<close>

definition cfg_section :: "ini \<Rightarrow> string \<Rightarrow> py_exn + options" where
  "cfg_section c sec = (case map_of c sec of None \<Rightarrow> Inl KeyError | Some kvs \<Rightarrow> Inr kvs)"

definition cfg_get :: "ini \<Rightarrow> string \<Rightarrow> string \<Rightarrow> py_exn + string" where
  "cfg_get c sec k =
     (case cfg_section c sec of
        Inl e \<Rightarrow> Inl e
      | Inr kvs \<Rightarrow> (case map_of kvs k of None \<Rightarrow> Inl KeyError | Some v \<Rightarrow> Inr v))"

definition cfg_set :: "ini \<Rightarrow> string \<Rightarrow> string \<Rightarrow> string \<Rightarrow> py_exn + ini" where
  "cfg_set c sec k v =
     (case cfg_section c sec of
        Inl e \<Rightarrow> Inl e
      | Inr kvs \<Rightarrow> Inr (dict_set c sec (dict_set kvs k v)))"

text \<open>The settings file on disk: missing, not parseable by \<open>configparser\<close>, or a document.\<close>

datatype disk_file = Absent | Garbled | Ini ini

subsection \<open>Environment, state and trace\<close>

record env =
  MINECRAFT_DIR :: string
  JAVA_DIR :: string
  is_windows :: bool
  path_join :: "string \<Rightarrow> string \<Rightarrow> string"
  uuid4 :: "nat \<Rightarrow> 128 word"

datatype fmt = Text string | Exn py_exn | Val json

datatype event =
    Showerror "fmt list"
  | Showinfo string "fmt list"
  | Urlopen string "json option"
  | Makedirs string
  | WriteConfig ini
  | Popen "json list" string

record app =
  config :: ini
  logged_in :: bool
  access_token :: json
  username :: json
  uuid :: json
  versions :: "(key \<times> json) list"
  version_combo :: string
  mode_combo :: string
  auth_entry :: string
  password_entry :: string
  auth_fields_shown :: bool
  config_file :: disk_file
  java_dir_exists :: bool
  java_installed :: bool
  uuid_calls :: nat
  trace :: "event list"

definition emit :: "event \<Rightarrow> app \<Rightarrow> app" where
  "emit e s = s\<lparr>trace := trace s @ [e]\<rparr>"

definition VERSION_MANIFEST_URL :: string where
  "VERSION_MANIFEST_URL = ''https://launchermeta.mojang.com/mc/game/version_manifest.json''"

definition TLAUNCHER_AUTH_URL :: string where
  "TLAUNCHER_AUTH_URL = ''https://auth.tlauncher.org/authenticate''"

text \<open>The reply of one network exchange: a step of it raised, or the decoded JSON value.\<close>

datatype reply = Fails py_exn | Body json

subsection \<open>\<open>fetch_versions\<close>\<close>

text \<open>
  The comprehension \<open>{v["id"]: v["url"] for v in data["versions"]}\<close>: key, then value,
  then the insertion (which hashes the key).
\<close>

fun collect_versions :: "json list \<Rightarrow> (key \<times> json) list \<Rightarrow> py_exn + (key \<times> json) list" where
  "collect_versions [] d = Inr d"
| "collect_versions (v # vs) d =
     (case subscript v ''id'' of
        Inl e \<Rightarrow> Inl e
      | Inr i \<Rightarrow>
          (case subscript v ''url'' of
             Inl e \<Rightarrow> Inl e
           | Inr u \<Rightarrow>
               (case hash_key i of
                  Inl e \<Rightarrow> Inl e
                | Inr k \<Rightarrow> collect_versions vs (dict_set d k u))))"

definition parse_manifest :: "reply \<Rightarrow> py_exn + (key \<times> json) list" where
  "parse_manifest r =
     (case r of
        Fails e \<Rightarrow> Inl e
      | Body data \<Rightarrow>
          (case subscript data ''versions'' of
             Inl e \<Rightarrow> Inl e
           | Inr vs \<Rightarrow>
               (case iterate vs of
                  Inl e \<Rightarrow> Inl e
                | Inr items \<Rightarrow> collect_versions items [])))"

definition fetch_versions :: "reply \<Rightarrow> app \<Rightarrow> app" where
  "fetch_versions r s =
     (let s1 = emit (Urlopen VERSION_MANIFEST_URL None) s in
      case parse_manifest r of
        Inr d \<Rightarrow> s1\<lparr>versions := d\<rparr>
      | Inl e \<Rightarrow> (emit (Showerror [Text ''Failed to fetch versions: '', Exn e]) s1)\<lparr>versions := []\<rparr>)"

subsection \<open>\<open>str(uuid.uuid4())\<close>\<close>

text \<open>
  \<open>uuid.uuid4()\<close> returns a 128-bit value; \<open>str\<close> prints it as 32 lower-case
  hexadecimal digits, most significant first, in groups of 8, 4, 4, 4 and 12 joined by
  hyphens.
\<close>

definition hexdigit :: "nat \<Rightarrow> char" where
  "hexdigit n = ''0123456789abcdef'' ! n"

definition nibble :: "128 word \<Rightarrow> nat \<Rightarrow> nat" where
  "nibble u i = unat (take_bit 4 (drop_bit (4 * (31 - i)) u))"

definition hex32 :: "128 word \<Rightarrow> string" where
  "hex32 u = map (\<lambda>i. hexdigit (nibble u i)) [0..<32]"

definition str_uuid :: "128 word \<Rightarrow> string" where
  "str_uuid u =
     (let h = hex32 u in
      take 8 h @ ''-'' @ take 4 (drop 8 h) @ ''-'' @ take 4 (drop 12 h) @ ''-'' @
      take 4 (drop 16 h) @ ''-'' @ drop 20 h)"

definition draw_uuid :: "env \<Rightarrow> app \<Rightarrow> string \<times> app" where
  "draw_uuid env s = (str_uuid (uuid4 env (uuid_calls s)), s\<lparr>uuid_calls := Suc (uuid_calls s)\<rparr>)"

subsection \<open>Loading the settings (\<open>__init__\<close>, lines 38 to 59)\<close>

text \<open>\<open>with open(self.config_file, 'w') as f: self.config.write(f)\<close>\<close>

definition write_config :: "app \<Rightarrow> app" where
  "write_config s = emit (WriteConfig (config s)) (s\<lparr>config_file := Ini (config s)\<rparr>)"

text \<open>
  The attributes a new object gets (lines 38 to 45) on a machine whose settings file,
  Java directory and Java executable are as given. The widgets do not exist yet.
\<close>

definition new_app :: "disk_file \<Rightarrow> bool \<Rightarrow> bool \<Rightarrow> nat \<Rightarrow> app" where
  "new_app file dir exe n =
     \<lparr> config = [], logged_in = False, access_token = JNull, username = JNull, uuid = JNull,
       versions = [], version_combo = [], mode_combo = [], auth_entry = [],
       password_entry = [], auth_fields_shown = False, config_file = file,
       java_dir_exists = dir, java_installed = exe, uuid_calls = n, trace = [] \<rparr>"

text \<open>Lines 55 to 59: \<open>if 'client_token' not in self.config['settings']: ...\<close>\<close>

definition ensure_client_token :: "env \<Rightarrow> app \<Rightarrow> unit outcome \<times> app" where
  "ensure_client_token env s =
     (case cfg_section (config s) ''settings'' of
        Inl e \<Rightarrow> (Raised e, s)
      | Inr kvs \<Rightarrow>
          (if map_of kvs ''client_token'' = None then
             (case draw_uuid env s of
                (u, s1) \<Rightarrow>
                  (case cfg_set (config s1) ''settings'' ''client_token'' u of
                     Inl e \<Rightarrow> (Raised e, s1)
                   | Inr c \<Rightarrow> (Returned (), write_config (s1\<lparr>config := c\<rparr>))))
           else (Returned (), s)))"

text \<open>
  Lines 47 to 59. \<open>self.config\<close> is the parser created empty on line 38, so reading a
  parseable file leaves exactly the file's document in it.
\<close>

definition load_config :: "env \<Rightarrow> app \<Rightarrow> unit outcome \<times> app" where
  "load_config env s =
     (case config_file s of
        Absent \<Rightarrow>
          (case draw_uuid env s of
             (u, s1) \<Rightarrow>
               ensure_client_token env
                 (write_config
                    (s1\<lparr>config := dict_set (config s1) ''settings''
                          [(''mode'', ''offline''), (''java_path'', []), (''client_token'', u)]\<rparr>)))
      | Garbled \<Rightarrow> (Raised ParsingError, s)
      | Ini c \<Rightarrow> ensure_client_token env (s\<lparr>config := c\<rparr>))"

subsection \<open>\<open>update_mode\<close>\<close>

definition update_mode :: "app \<Rightarrow> unit outcome \<times> app" where
  "update_mode s =
     (let mode = mode_combo s in
      case cfg_set (config s) ''settings'' ''mode'' mode of
        Inl e \<Rightarrow> (Raised e, s)
      | Inr c \<Rightarrow>
          (let s1 = write_config (s\<lparr>config := c\<rparr>) in
           (Returned (),
            if mode = ''Offline Mode'' then s1\<lparr>auth_fields_shown := False\<rparr>
            else if mode = ''TLauncher Mode'' then s1\<lparr>auth_fields_shown := True\<rparr>
            else s1)))"

text \<open>The user picks an entry of the mode combobox: the bound handler runs.\<close>

definition select_mode :: "string \<Rightarrow> app \<Rightarrow> unit outcome \<times> app" where
  "select_mode m s = update_mode (s\<lparr>mode_combo := m\<rparr>)"

subsection \<open>\<open>init_ui\<close> and the whole of \<open>__init__\<close>\<close>

text \<open>
  Of \<open>init_ui\<close> only what touches the state: \<open>create_home_page\<close> sets the version
  combobox to \<open>1.20.1\<close>, \<open>create_settings_page\<close> sets the mode combobox from the
  settings and calls \<open>update_mode\<close>.
\<close>

definition init_ui :: "app \<Rightarrow> unit outcome \<times> app" where
  "init_ui s =
     (let s1 = s\<lparr>version_combo := ''1.20.1''\<rparr> in
      case cfg_get (config s1) ''settings'' ''mode'' of
        Inl e \<Rightarrow> (Raised e, s1)
      | Inr m \<Rightarrow> update_mode (s1\<lparr>mode_combo := m\<rparr>))"

definition startup :: "env \<Rightarrow> reply \<Rightarrow> app \<Rightarrow> unit outcome \<times> app" where
  "startup env r s =
     (case load_config env s of
        (Raised e, s1) \<Rightarrow> (Raised e, s1)
      | (Returned _, s1) \<Rightarrow> init_ui (fetch_versions r s1))"

subsection \<open>\<open>login\<close>\<close>

definition login_failed :: "py_exn \<Rightarrow> app \<Rightarrow> unit outcome \<times> app" where
  "login_failed e s =
     (Returned (), (emit (Showerror [Text ''Authentication failed: '', Exn e]) s)\<lparr>logged_in := False\<rparr>)"

definition login :: "reply \<Rightarrow> app \<Rightarrow> unit outcome \<times> app" where
  "login r s =
     (case cfg_get (config s) ''settings'' ''client_token'' of
        Inl e \<Rightarrow> (Raised e, s)
      | Inr client_token \<Rightarrow>
          (let payload = JObj [(''username'', JStr (auth_entry s)),
                               (''password'', JStr (password_entry s)),
                               (''clientToken'', JStr client_token),
                               (''requestUser'', JBool True)];
               s1 = emit (Urlopen TLAUNCHER_AUTH_URL (Some payload)) s
           in
           case r of
             Body data \<Rightarrow>
               (case subscript data ''accessToken'' of
                  Inl e \<Rightarrow> login_failed e s1
                | Inr tok \<Rightarrow>
                    (let s2 = s1\<lparr>access_token := tok\<rparr> in
                     case subscript data ''selectedProfile'' of
                       Inl e \<Rightarrow> login_failed e s2
                     | Inr profile \<Rightarrow>
                         (case subscript profile ''id'' of
                            Inl e \<Rightarrow> login_failed e s2
                          | Inr pid \<Rightarrow>
                              (let s3 = s2\<lparr>uuid := pid\<rparr> in
                               case subscript profile ''name'' of
                                 Inl e \<Rightarrow> login_failed e s3
                               | Inr name \<Rightarrow>
                                   (Returned (),
                                    emit (Showinfo ''Success'' [Text ''Logged in as '', Val name])
                                      (s3\<lparr>username := name, logged_in := True\<rparr>))))))
           | Fails (HTTPError code reason body) \<Rightarrow>
               (case body of
                  None \<Rightarrow> (Raised UnicodeDecodeError, s1)
                | Some error_message \<Rightarrow>
                    (Returned (),
                     (emit (Showerror [Text ''Authentication failed: '', Val (JNum (int code)),
                                       Text '' '', Text reason, Text [CHR 0x0A],
                                       Text ''Details: '', Text error_message]) s1)
                       \<lparr>logged_in := False\<rparr>))
           | Fails e \<Rightarrow> login_failed e s1))"

subsection \<open>\<open>install_java_if_needed\<close>\<close>

definition java_path_of :: "env \<Rightarrow> string" where
  "java_path_of env =
     path_join env (path_join env (JAVA_DIR env) ''bin'')
       (if is_windows env then ''java.exe'' else ''java'')"

definition install_java_if_needed :: "env \<Rightarrow> app \<Rightarrow> string outcome \<times> app" where
  "install_java_if_needed env s =
     (let s1 = (if \<not> java_dir_exists s
                then emit (Showinfo ''Java'' [Text ''Installing Zulu OpenJDK (placeholder)...''])
                       (emit (Makedirs (JAVA_DIR env)) (s\<lparr>java_dir_exists := True\<rparr>))
                else s);
          java_path = java_path_of env
      in
      case cfg_set (config s1) ''settings'' ''java_path'' java_path of
        Inl e \<Rightarrow> (Raised e, s1)
      | Inr c \<Rightarrow> (Returned java_path, write_config (s1\<lparr>config := c\<rparr>)))"

subsection \<open>\<open>prepare_and_launch\<close>\<close>

text \<open>\<open>s.split(c)\<close> for a one-character separator, and \<open>xs[i]\<close> for \<open>i \<ge> 0\<close>.\<close>

fun split_on :: "char \<Rightarrow> string \<Rightarrow> string list" where
  "split_on c [] = [[]]"
| "split_on c (x # xs) =
     (if x = c then [] # split_on c xs
      else (case split_on c xs of
              [] \<Rightarrow> [[x]]
            | y # ys \<Rightarrow> (x # y) # ys))"

definition getitem :: "'a list \<Rightarrow> nat \<Rightarrow> py_exn + 'a" where
  "getitem xs i = (if i < length xs then Inr (xs ! i) else Inl IndexError)"

definition asset_index :: "string \<Rightarrow> py_exn + string" where
  "asset_index version = getitem (split_on CHR ''.'' version) 1"

definition VERSIONS_DIR :: "env \<Rightarrow> string" where
  "VERSIONS_DIR env = path_join env (MINECRAFT_DIR env) ''versions''"

text \<open>
  The list display of lines 262 to 274, evaluated left to right: the asset index may raise
  before \<open>uuid.uuid4()\<close> is reached.
\<close>

definition launch_cmd :: "env \<Rightarrow> string \<Rightarrow> string \<Rightarrow> app \<Rightarrow> (py_exn + json list) \<times> app" where
  "launch_cmd env java_path version s =
     (case asset_index version of
        Inl e \<Rightarrow> (Inl e, s)
      | Inr idx \<Rightarrow>
          (case (if logged_in s then (uuid s, s)
                 else (case draw_uuid env s of (u, s1) \<Rightarrow> (JStr u, s1))) of
             (uid, s1) \<Rightarrow>
               (Inr [JStr java_path,
                     JStr (''-Djava.library.path='' @ VERSIONS_DIR env),
                     JStr ''-cp'', JStr (MINECRAFT_DIR env),
                     JStr ''net.minecraft.client.main.Main'',
                     JStr ''--username'', (if logged_in s then username s else JStr ''Player''),
                     JStr ''--version'', JStr version,
                     JStr ''--gameDir'', JStr (MINECRAFT_DIR env),
                     JStr ''--assetsDir'', JStr (path_join env (MINECRAFT_DIR env) ''assets''),
                     JStr ''--assetIndex'', JStr idx,
                     JStr ''--uuid'', uid,
                     JStr ''--accessToken'', (if logged_in s then access_token s else JStr ''0'')],
                s1)))"

text \<open>
  \<open>subprocess.Popen(launch_cmd, cwd=MINECRAFT_DIR)\<close>: an argument that is not a string
  is a \<open>TypeError\<close>, a missing executable a \<open>FileNotFoundError\<close>; whether the system
  refuses the spawn for another reason is the argument \<open>spawn_fault\<close>.
\<close>

fun is_str :: "json \<Rightarrow> bool" where
  "is_str (JStr _) = True"
| "is_str _ = False"

definition popen_raises :: "(json list \<Rightarrow> py_exn option) \<Rightarrow> json list \<Rightarrow> app \<Rightarrow> py_exn option" where
  "popen_raises spawn_fault cmd s =
     (if \<not> list_all is_str cmd then Some TypeError
      else if \<not> java_installed s then Some FileNotFoundError
      else spawn_fault cmd)"

definition prepare_and_launch ::
  "env \<Rightarrow> (json list \<Rightarrow> py_exn option) \<Rightarrow> app \<Rightarrow> unit outcome \<times> app" where
  "prepare_and_launch env spawn_fault s =
     (case cfg_get (config s) ''settings'' ''mode'' of
        Inl e \<Rightarrow> (Raised e, s)
      | Inr mode \<Rightarrow>
          (if mode = ''TLauncher Mode'' \<and> \<not> logged_in s then
             (Returned (), emit (Showerror [Text ''Please log in with TLauncher first.'']) s)
           else
             (let version = version_combo s in
              if version = [] then
                (Returned (), emit (Showerror [Text ''Please select a version.'']) s)
              else
                (case install_java_if_needed env s of
                   (Raised e, s1) \<Rightarrow> (Raised e, s1)
                 | (Returned java_path, s1) \<Rightarrow>
                     (case launch_cmd env java_path version s1 of
                        (Inl e, s2) \<Rightarrow> (Raised e, s2)
                      | (Inr cmd, s2) \<Rightarrow>
                          (let s3 = emit (Popen cmd (MINECRAFT_DIR env)) s2 in
                           case popen_raises spawn_fault cmd s3 of
                             None \<Rightarrow>
                               (Returned (),
                                emit (Showinfo ''Success'' [Text ''Minecraft is launching...'']) s3)
                           | Some e \<Rightarrow>
                               (Returned (),
                                emit (Showerror [Text ''Failed to launch: '', Exn e]) s3)))))))"

subsection \<open>Concrete inputs\<close>

definition posix_env :: env where
  "posix_env = \<lparr> MINECRAFT_DIR = ''/home/u/.minecraft'', JAVA_DIR = ''/home/u/.catclient/java'',
     is_windows = False, path_join = (\<lambda>a b. a @ ''/'' @ b),
     uuid4 = (\<lambda>n. 0x3f2b8c1e9d4a4c6fb7e15a0d86c2f914 + word_of_nat n) \<rparr>"

definition manifest :: json where
  "manifest = JObj [(''versions'',
     JArr [JObj [(''id'', JStr ''1.20.1''), (''url'', JStr ''http://x'')],
           JObj [(''id'', JStr ''1.19.4''), (''url'', JStr ''http://y'')]])]"

definition default_ini :: ini where
  "default_ini = [(''settings'',
     [(''mode'', ''Offline Mode''), (''java_path'', []),
      (''client_token'', ''8d8ac610-566d-4ef0-9c22-186b2a5ed793'')])]"

text \<open>A running launcher in offline mode, nobody signed in, no Java directory yet.\<close>

definition idle_app :: app where
  "idle_app = \<lparr> config = default_ini, logged_in = False, access_token = JNull, username = JNull,
     uuid = JNull, versions = [], version_combo = ''1.20.1'', mode_combo = ''Offline Mode'',
     auth_entry = [], password_entry = [], auth_fields_shown = False,
     config_file = Ini default_ini, java_dir_exists = False, java_installed = False,
     uuid_calls = 1, trace = [] \<rparr>"

text \<open>The same launcher after a refresh that succeeded.\<close>

definition stocked_app :: app where
  "stocked_app = fetch_versions (Body manifest) idle_app"

text \<open>The same launcher after the user picked TLauncher mode; nobody has signed in.\<close>

definition tlauncher_app :: app where
  "tlauncher_app = snd (select_mode ''TLauncher Mode'' idle_app)"

text \<open>A complete reply of the authentication service, and the launcher signed in by it.\<close>

definition auth_ok :: json where
  "auth_ok = JObj [(''accessToken'', JStr ''tok-1''),
     (''selectedProfile'', JObj [(''id'', JStr ''p-1''), (''name'', JStr ''Steve'')])]"

definition signed_in_app :: app where
  "signed_in_app = snd (login (Body auth_ok) tlauncher_app)"

text \<open>
  A first start on a machine that has Java but no settings file, while the manifest
  endpoint cannot be reached.
\<close>

definition first_start :: app where
  "first_start = snd (startup posix_env (Fails URLError) (new_app Absent True True 0))"

text \<open>A system that refuses no spawn.\<close>

definition no_fault :: "json list \<Rightarrow> py_exn option" where
  "no_fault cmd = None"

subsection \<open>Vocabulary of the statements\<close>

text \<open>What a call appended to the trace, and the kinds of events the claims speak of.\<close>

definition new_events :: "app \<Rightarrow> app \<Rightarrow> event list" where
  "new_events s s' = drop (length (trace s)) (trace s')"



fun is_popen :: "event \<Rightarrow> bool" where
  "is_popen (Popen _ _) = True"
| "is_popen _ = False"

text \<open>The argument vectors of the spawns among some events.\<close>

fun spawned :: "event list \<Rightarrow> json list list" where
  "spawned [] = []"
| "spawned (Popen cmd cwd # es) = cmd # spawned es"
| "spawned (e # es) = spawned es"

text \<open>What a session holds of the signed-in user.\<close>

definition identity :: "app \<Rightarrow> bool \<times> json \<times> json \<times> json" where
  "identity s = (logged_in s, access_token s, uuid s, username s)"

text \<open>
  The reply carries an access token and a profile with an id and a name: the three keys
  occur, whatever their values.
\<close>

definition has_token_and_profile :: "json \<Rightarrow> bool" where
  "has_token_and_profile data =
     (case data of
        JObj kvs \<Rightarrow>
          (case (map_of kvs ''accessToken'', map_of kvs ''selectedProfile'') of
             (Some tok, Some (JObj p)) \<Rightarrow> map_of p ''id'' \<noteq> None \<and> map_of p ''name'' \<noteq> None
           | _ \<Rightarrow> False)
      | _ \<Rightarrow> False)"

text \<open>The 32 digits of a printed UUID, read back from between the hyphens.\<close>

definition unhyphen :: "string \<Rightarrow> string" where
  "unhyphen s = take 8 s @ take 4 (drop 9 s) @ take 4 (drop 14 s) @ take 4 (drop 19 s) @ drop 24 s"

section \<open>Theorems\<close>

subsection \<open>The printed UUID\<close>

lemma length_hex32: "length (hex32 u) = 32"
  by (simp add: hex32_def)

lemma length_str_uuid: "length (str_uuid u) = 36"
  by (simp add: str_uuid_def Let_def length_hex32)

lemma take_drop_glue: "take n (drop m h) @ drop (n + m) h = drop m h"
  using append_take_drop_id [of n "drop m h"] by (simp only: drop_drop)

lemma regroup:
  "take 8 h @ take 4 (drop 8 h) @ take 4 (drop 12 h) @ take 4 (drop 16 h) @ drop 20 h = h"
proof -
  have a: "take 4 (drop 16 h) @ drop 20 h = drop 16 h" using take_drop_glue [of 4 16 h] by simp
  have b: "take 4 (drop 12 h) @ drop 16 h = drop 12 h" using take_drop_glue [of 4 12 h] by simp
  have c: "take 4 (drop 8 h) @ drop 12 h = drop 8 h" using take_drop_glue [of 4 8 h] by simp
  show ?thesis by (simp add: a b c)
qed

lemma unhyphen_str_uuid: "unhyphen (str_uuid u) = hex32 u"
proof -
  define h where "h = hex32 u"
  have l: "length h = 32" by (simp add: h_def length_hex32)
  have "unhyphen (take 8 h @ ''-'' @ take 4 (drop 8 h) @ ''-'' @ take 4 (drop 12 h) @ ''-'' @
      take 4 (drop 16 h) @ ''-'' @ drop 20 h) =
     take 8 h @ take 4 (drop 8 h) @ take 4 (drop 12 h) @ take 4 (drop 16 h) @ drop 20 h"
    by (simp add: unhyphen_def l)
  then show ?thesis
    by (simp add: str_uuid_def Let_def regroup flip: h_def)
qed

lemma hexdigit_inj: "a < 16 \<Longrightarrow> b < 16 \<Longrightarrow> hexdigit a = hexdigit b \<Longrightarrow> a = b"
proof -
  assume a: "a < 16" and b: "b < 16" and e: "hexdigit a = hexdigit b"
  have d: "distinct ''0123456789abcdef''" by simp
  from a b e show ?thesis
    unfolding hexdigit_def using nth_eq_iff_index_eq [OF d, of a b] by simp
qed

lemma nibble_lt: "nibble u i < 16"
proof -
  have "unat (take_bit 4 (drop_bit (4 * (31 - i)) u)) < 2 ^ 4"
    by (metis unsigned_take_bit_eq take_bit_nat_less_exp)
  then show ?thesis by (simp add: nibble_def)
qed

lemma nibble_bits:
  assumes "nibble u i = nibble v i" and "r < 4"
  shows "bit u (4 * (31 - i) + r) \<longleftrightarrow> bit v (4 * (31 - i) + r)"
proof -
  from assms(1)
  have "take_bit 4 (drop_bit (4 * (31 - i)) u) = take_bit 4 (drop_bit (4 * (31 - i)) v)"
    by (simp add: nibble_def word_unat_eq_iff)
  then have "bit (take_bit 4 (drop_bit (4 * (31 - i)) u)) r =
             bit (take_bit 4 (drop_bit (4 * (31 - i)) v)) r"
    by simp
  with assms(2) show ?thesis
    by (simp add: bit_take_bit_iff bit_drop_bit_eq)
qed

lemma hex32_inj:
  assumes "hex32 u = hex32 v"
  shows "u = v"
proof (rule bit_word_eqI)
  fix n
  assume "n < LENGTH(128)"
  then have n: "n < 128" by simp
  define i where "i = 31 - n div 4"
  have i: "i \<in> set [0..<32]" by (simp add: i_def)
  from assms have "\<forall>x\<in>set [0..<32]. hexdigit (nibble u x) = hexdigit (nibble v x)"
    by (simp add: hex32_def)
  with i have "hexdigit (nibble u i) = hexdigit (nibble v i)" by blast
  then have e: "nibble u i = nibble v i"
    using hexdigit_inj nibble_lt by blast
  have q: "4 * (31 - i) + n mod 4 = n" using n by (simp add: i_def)
  from nibble_bits [OF e, of "n mod 4"] q show "bit u n = bit v n" by simp
qed

lemma str_uuid_inj: "str_uuid u = str_uuid v \<Longrightarrow> u = v"
  by (metis unhyphen_str_uuid hex32_inj)

subsection \<open>Unfolding bundles\<close>

lemmas run_defs = startup_def load_config_def ensure_client_token_def init_ui_def update_mode_def
  select_mode_def fetch_versions_def parse_manifest_def login_def login_failed_def
  install_java_if_needed_def java_path_of_def prepare_and_launch_def launch_cmd_def
  popen_raises_def draw_uuid_def write_config_def emit_def new_app_def
  cfg_get_def cfg_set_def cfg_section_def asset_index_def getitem_def VERSIONS_DIR_def
  new_events_def Let_def

lemmas input_defs = posix_env_def idle_app_def default_ini_def tlauncher_app_def auth_ok_def
  signed_in_app_def first_start_def stocked_app_def manifest_def no_fault_def

subsection \<open>The settings document\<close>

lemma map_of_dict_set: "map_of (dict_set kvs k v) k' = (if k' = k then Some v else map_of kvs k')"
  by (induction kvs) auto


lemma cfg_set_ok:
  "cfg_section c sec = Inr kvs \<Longrightarrow> cfg_set c sec k v = Inr (dict_set c sec (dict_set kvs k v))"
  by (simp add: cfg_set_def)

lemma cfg_get_section:
  "cfg_get c sec k = Inr v \<Longrightarrow> \<exists>kvs. cfg_section c sec = Inr kvs \<and> map_of kvs k = Some v"
  by (auto simp: cfg_get_def split: sum.splits option.splits)

lemma cfg_get_set:
  "cfg_section c sec = Inr kvs \<Longrightarrow>
   cfg_get (dict_set c sec (dict_set kvs k v)) sec k' = (if k' = k then Inr v else cfg_get c sec k')"
  by (auto simp: cfg_get_def cfg_section_def map_of_dict_set split: option.splits)

subsection \<open>What \<open>install_java_if_needed\<close> does when the settings have their section\<close>

lemma install_java_if_needed_eq:
  assumes "cfg_section (config s) ''settings'' = Inr kvs"
  shows "install_java_if_needed env s =
    (Returned (java_path_of env),
     s\<lparr>java_dir_exists := True,
       config := dict_set (config s) ''settings'' (dict_set kvs ''java_path'' (java_path_of env)),
       config_file :=
         Ini (dict_set (config s) ''settings'' (dict_set kvs ''java_path'' (java_path_of env))),
       trace := trace s @
         (if java_dir_exists s then []
          else [Makedirs (JAVA_DIR env),
                Showinfo ''Java'' [Text ''Installing Zulu OpenJDK (placeholder)...'']]) @
         [WriteConfig
            (dict_set (config s) ''settings'' (dict_set kvs ''java_path'' (java_path_of env)))]\<rparr>)"
  using assms
  by (simp add: install_java_if_needed_def Let_def emit_def write_config_def cfg_set_ok)

subsection \<open>Splitting at a separator\<close>

lemma length_split_on: "length (split_on c xs) = Suc (length (filter (\<lambda>x. x = c) xs))"
  by (induction xs) (auto split: list.splits)

lemma asset_index_total: "(\<exists>x. asset_index v = Inr x) \<longleftrightarrow> CHR ''.'' \<in> set v"
proof -
  have "1 < length (split_on CHR ''.'' v) \<longleftrightarrow> filter (\<lambda>x. x = CHR ''.'') v \<noteq> []"
    by (simp add: length_split_on)
  also have "\<dots> \<longleftrightarrow> CHR ''.'' \<in> set v"
    by (auto simp: filter_empty_conv)
  finally show ?thesis by (auto simp: asset_index_def getitem_def)
qed

lemma asset_index_no_dot: "CHR ''.'' \<notin> set v \<Longrightarrow> asset_index v = Inl IndexError"
  using asset_index_total [of v] by (auto simp: asset_index_def getitem_def)

subsection \<open>Loading the settings\<close>

lemma load_config_absent:
  "load_config env (new_app Absent dir exe n) =
     (Returned (),
      (new_app Absent dir exe n)
        \<lparr>config := [(''settings'', [(''mode'', ''offline''), (''java_path'', []),
                                    (''client_token'', str_uuid (uuid4 env n))])],
         config_file := Ini [(''settings'', [(''mode'', ''offline''), (''java_path'', []),
                                    (''client_token'', str_uuid (uuid4 env n))])],
         uuid_calls := Suc n,
         trace := [WriteConfig [(''settings'', [(''mode'', ''offline''), (''java_path'', []),
                                    (''client_token'', str_uuid (uuid4 env n))])]]\<rparr>)"
  by (simp add: load_config_def ensure_client_token_def draw_uuid_def write_config_def emit_def
      new_app_def cfg_section_def)

lemma load_config_regenerates:
  assumes "cfg_section c ''settings'' = Inr kvs" and "map_of kvs ''client_token'' = None"
  shows "\<exists>s'. load_config env (new_app (Ini c) dir exe n) = (Returned (), s') \<and>
           cfg_get (config s') ''settings'' ''client_token'' = Inr (str_uuid (uuid4 env n)) \<and>
           config_file s' = Ini (config s') \<and> trace s' = [WriteConfig (config s')]"
  using assms
  by (simp add: load_config_def ensure_client_token_def draw_uuid_def write_config_def emit_def
      new_app_def cfg_set_ok cfg_get_set)

text \<open>
  A load that succeeds leaves a settings file with a client token, and a second start of
  the program on that file reads the same document: no new token, no write.
\<close>

lemma load_config_twice:
  assumes "load_config env (new_app f dir exe n) = (Returned (), s')"
  shows "\<exists>tok. cfg_get (config s') ''settings'' ''client_token'' = Inr tok \<and>
           config_file s' = Ini (config s') \<and>
           load_config env (new_app (config_file s') dir' exe' n') =
             (Returned (), (new_app (config_file s') dir' exe' n')\<lparr>config := config s'\<rparr>)"
proof (cases f)
  case Absent
  with assms show ?thesis
    by (auto simp add: load_config_absent)
       (simp_all add: load_config_def ensure_client_token_def new_app_def cfg_section_def
          cfg_get_def)
next
  case Garbled
  with assms show ?thesis by (simp add: load_config_def new_app_def)
next
  case (Ini c)
  show ?thesis
  proof (cases "cfg_section c ''settings''")
    case (Inl e)
    with assms Ini show ?thesis
      by (simp add: load_config_def ensure_client_token_def new_app_def)
  next
    case (Inr kvs)
    show ?thesis
    proof (cases "map_of kvs ''client_token''")
      case None
      from load_config_regenerates [OF Inr None, of env dir exe n] assms Ini
      have a: "cfg_get (config s') ''settings'' ''client_token'' = Inr (str_uuid (uuid4 env n))"
        and b: "config_file s' = Ini (config s')"
        by auto
      from a obtain kvs' where "cfg_section (config s') ''settings'' = Inr kvs'"
        and "map_of kvs' ''client_token'' = Some (str_uuid (uuid4 env n))"
        using cfg_get_section by blast
      with a b show ?thesis
        by (simp add: load_config_def ensure_client_token_def new_app_def)
    next
      case (Some tok)
      with assms Ini Inr show ?thesis
        by (auto simp add: load_config_def ensure_client_token_def new_app_def cfg_get_def)
    qed
  qed
qed

subsection \<open>Who is signed in\<close>

lemma update_mode_identity: "update_mode s = (out, s') \<Longrightarrow> identity s' = identity s"
  by (auto simp: update_mode_def identity_def write_config_def emit_def Let_def
      split: sum.splits if_splits)

lemma select_mode_identity: "select_mode m s = (out, s') \<Longrightarrow> identity s' = identity s"
  using update_mode_identity [of "s\<lparr>mode_combo := m\<rparr>" out s']
  by (simp add: select_mode_def identity_def)

lemma login_handled_failure:
  assumes "login r s = (Returned (), s')" and "\<forall>d. r = Body d \<longrightarrow> \<not> has_token_and_profile d"
  shows "\<not> logged_in s' \<and> username s' = username s \<and>
         (\<forall>e. r = Fails e \<longrightarrow> access_token s' = access_token s \<and> uuid s' = uuid s)"
proof (cases r)
  case (Fails e)
  with assms(1) show ?thesis
    by (auto simp: login_def login_failed_def emit_def Let_def
        split: sum.splits option.splits py_exn.splits)
next
  case (Body d)
  with assms have n: "\<not> has_token_and_profile d" by simp
  from Body assms(1) n show ?thesis
    by (cases d)
       (auto simp: login_def login_failed_def emit_def Let_def has_token_and_profile_def
         split: sum.splits option.splits json.splits)
qed

text \<open>
  The one path on which \<open>login\<close> leaves the flag as it was: the service answers with an
  HTTP error whose body is not valid UTF-8, and the handler itself raises.
\<close>

lemma login_handler_raises:
  "cfg_get (config s) ''settings'' ''client_token'' = Inr tok \<Longrightarrow>
   \<exists>s'. login (Fails (HTTPError code reason None)) s = (Raised UnicodeDecodeError, s') \<and>
        identity s' = identity s"
  by (simp add: login_def emit_def identity_def)

lemma launch_ignores_catalog:
  "prepare_and_launch env sf (s\<lparr>versions := d\<rparr>) =
     (case prepare_and_launch env sf s of (out, s') \<Rightarrow> (out, s'\<lparr>versions := d\<rparr>))"
  by (simp add: prepare_and_launch_def install_java_if_needed_def launch_cmd_def draw_uuid_def
      popen_raises_def emit_def write_config_def Let_def
      split: sum.splits option.splits)

subsection \<open>C1: a failed refresh\<close>

text \<open>A refresh that succeeds replaces the mapping by the manifest's, in the manifest's order.\<close>

lemma fetch_versions_manifest:
  "versions (fetch_versions (Body manifest) s) =
     [(KStr ''1.20.1'', JStr ''http://x''), (KStr ''1.19.4'', JStr ''http://y'')]"
  by (simp add: fetch_versions_def parse_manifest_def manifest_def emit_def)

lemma fetch_versions_failed:
  "parse_manifest r = Inl e \<Longrightarrow>
   fetch_versions r s =
     s\<lparr>trace := trace s @ [Urlopen VERSION_MANIFEST_URL None,
                            Showerror [Text ''Failed to fetch versions: '', Exn e]],
       versions := []\<rparr>"
  by (simp add: fetch_versions_def emit_def)

text \<open>
  C1, as the spec states it: after a refresh that fails, the mapping is the one before the
  refresh. The code does otherwise: with a populated catalog and an unreachable manifest
  endpoint, \<open>fetch_versions\<close> leaves an empty mapping.
\<close>

theorem C1_failed_refresh_empties_catalog:
  "parse_manifest (Fails URLError) = Inl URLError \<and>
   versions stocked_app \<noteq> [] \<and>
   versions (fetch_versions (Fails URLError) stocked_app) \<noteq> versions stocked_app"
  by (simp add: parse_manifest_def fetch_versions_def emit_def stocked_app_def idle_app_def manifest_def)

text \<open>
  C1, amended: whenever the refresh fails (the request, the decoding, or the walk over the
  decoded manifest raises), \<open>fetch_versions\<close> shows the error and sets the mapping to the
  empty dict, whatever it held before; nothing else of the state changes.
\<close>

theorem C1_failed_refresh_resets_catalog:
  "parse_manifest r = Inl e \<Longrightarrow>
   versions (fetch_versions r s) = [] \<and>
   trace (fetch_versions r s) =
     trace s @ [Urlopen VERSION_MANIFEST_URL None,
                Showerror [Text ''Failed to fetch versions: '', Exn e]] \<and>
   (fetch_versions r s)\<lparr>versions := versions s, trace := trace s\<rparr> = s"
  by (simp add: fetch_versions_failed)

theorem C1_failed_refresh_resets_catalog_witness:
  "parse_manifest (Body (JObj [(''oops'', JNull)])) = Inl KeyError \<and>
   versions (fetch_versions (Body (JObj [(''oops'', JNull)])) stocked_app) = [] \<and>
   trace (fetch_versions (Body (JObj [(''oops'', JNull)])) stocked_app) =
     trace stocked_app @ [Urlopen VERSION_MANIFEST_URL None,
                Showerror [Text ''Failed to fetch versions: '', Exn KeyError]]"
proof -
  have h: "parse_manifest (Body (JObj [(''oops'', JNull)])) = Inl KeyError"
    by (simp add: parse_manifest_def)
  from C1_failed_refresh_resets_catalog [OF h, of stocked_app] h show ?thesis
    by simp
qed

subsection \<open>C2: launching in TLauncher mode without a login\<close>

text \<open>
  C2. When the settings say \<open>TLauncher Mode\<close> and nobody is signed in,
  \<open>prepare_and_launch\<close> shows the request to log in and returns, whichever version is
  selected: the state is untouched but for that message box, so no directory is made, no
  settings are written and no process is spawned.
\<close>

theorem C2_launch_requires_login:
  assumes "cfg_get (config s) ''settings'' ''mode'' = Inr ''TLauncher Mode''"
    and "\<not> logged_in s"
  shows "prepare_and_launch env sf (s\<lparr>version_combo := v\<rparr>) =
           (Returned (),
            emit (Showerror [Text ''Please log in with TLauncher first.''])
              (s\<lparr>version_combo := v\<rparr>)) \<and>
         new_events (s\<lparr>version_combo := v\<rparr>)
             (snd (prepare_and_launch env sf (s\<lparr>version_combo := v\<rparr>))) =
           [Showerror [Text ''Please log in with TLauncher first.'']]"
  using assms by (simp add: prepare_and_launch_def emit_def new_events_def)

theorem C2_launch_requires_login_witness:
  "cfg_get (config tlauncher_app) ''settings'' ''mode'' = Inr ''TLauncher Mode'' \<and>
   \<not> logged_in tlauncher_app \<and>
   prepare_and_launch posix_env no_fault (tlauncher_app\<lparr>version_combo := ''no-such-version''\<rparr>) =
     (Returned (),
      emit (Showerror [Text ''Please log in with TLauncher first.''])
        (tlauncher_app\<lparr>version_combo := ''no-such-version''\<rparr>))"
proof -
  have m: "cfg_get (config tlauncher_app) ''settings'' ''mode'' = Inr ''TLauncher Mode''"
    by (simp add: run_defs input_defs)
  have l: "\<not> logged_in tlauncher_app"
    by (simp add: run_defs input_defs)
  from C2_launch_requires_login [OF m l, of posix_env no_fault "''no-such-version''"] m l
  show ?thesis by simp
qed

subsection \<open>C3: what \<open>login\<close> accepts as a sign-in\<close>



subsection \<open>C4: the version that is launched\<close>

text \<open>
  C4, as the spec states it: a version id that the catalog does not resolve makes the
  launch fail, with no provisioning and no spawn. The code does otherwise. After a first
  start without network the catalog is empty and the combobox holds \<open>1.20.1\<close>;
  \<open>prepare_and_launch\<close> then spawns the game and reports success.
\<close>

theorem C4_unlisted_version_is_launched:
  "fst (startup posix_env (Fails URLError) (new_app Absent True True 0)) = Returned () \<and>
   version_combo first_start = ''1.20.1'' \<and>
   versions first_start = [] \<and>
   fst (prepare_and_launch posix_env no_fault first_start) = Returned () \<and>
   list_ex is_popen
     (new_events first_start (snd (prepare_and_launch posix_env no_fault first_start))) \<and>
   last (trace (snd (prepare_and_launch posix_env no_fault first_start))) =
     Showinfo ''Success'' [Text ''Minecraft is launching...'']"
  by (simp add: run_defs input_defs)

text \<open>
  C4, amended. Once the mode check has passed, an empty selection makes
  \<open>prepare_and_launch\<close> show \<open>Please select a version.\<close> and return with the state
  untouched but for that message box: nothing is provisioned and nothing is spawned. The
  catalog is not consulted: with any other catalog the launch does the same.
\<close>

theorem C4_empty_version_refused:
  assumes "cfg_get (config s) ''settings'' ''mode'' = Inr mode"
    and "mode = ''TLauncher Mode'' \<longrightarrow> logged_in s"
    and "version_combo s = []"
  shows "prepare_and_launch env sf s =
           (Returned (), emit (Showerror [Text ''Please select a version.'']) s) \<and>
         new_events s (snd (prepare_and_launch env sf s)) =
           [Showerror [Text ''Please select a version.'']] \<and>
         prepare_and_launch env sf (t\<lparr>versions := d\<rparr>) =
           (case prepare_and_launch env sf t of (out, t') \<Rightarrow> (out, t'\<lparr>versions := d\<rparr>))"
proof (intro conjI)
  show r: "prepare_and_launch env sf s =
             (Returned (), emit (Showerror [Text ''Please select a version.'']) s)"
    using assms by (auto simp add: prepare_and_launch_def)
  show "new_events s (snd (prepare_and_launch env sf s)) =
          [Showerror [Text ''Please select a version.'']]"
    by (simp add: r new_events_def emit_def)
  show "prepare_and_launch env sf (t\<lparr>versions := d\<rparr>) =
          (case prepare_and_launch env sf t of (out, t') \<Rightarrow> (out, t'\<lparr>versions := d\<rparr>))"
    by (rule launch_ignores_catalog)
qed

theorem C4_empty_version_refused_witness:
  "cfg_get (config idle_app) ''settings'' ''mode'' = Inr ''Offline Mode'' \<and>
   version_combo (idle_app\<lparr>version_combo := []\<rparr>) = [] \<and>
   prepare_and_launch posix_env no_fault (idle_app\<lparr>version_combo := []\<rparr>) =
     (Returned (),
      emit (Showerror [Text ''Please select a version.'']) (idle_app\<lparr>version_combo := []\<rparr>))"
proof -
  have m: "cfg_get (config (idle_app\<lparr>version_combo := []\<rparr>)) ''settings'' ''mode'' =
             Inr ''Offline Mode''"
    by (simp add: run_defs input_defs)
  have g: "''Offline Mode'' = ''TLauncher Mode'' \<longrightarrow> logged_in (idle_app\<lparr>version_combo := []\<rparr>)"
    by simp
  have v: "version_combo (idle_app\<lparr>version_combo := []\<rparr>) = []"
    by simp
  from C4_empty_version_refused [OF m g v, of posix_env no_fault] m v
  show ?thesis by simp
qed

subsection \<open>C5: the client token of the settings file\<close>

text \<open>
  C5. A settings file that lacks a client token gets one, which is written at once. The
  code attempts this under its comment \<open>Ensure client_token exists\<close>, but looks the
  token up in \<open>self.config['settings']\<close> without asking whether the file has that
  section. On an existing settings file with no \<open>[settings]\<close> section (an empty file,
  say) \<open>__init__\<close> raises \<open>KeyError\<close>: no token is drawn and nothing is written. The
  parts of the claim that hold are \<open>load_config_absent\<close>, \<open>load_config_regenerates\<close>
  and \<open>load_config_twice\<close>, with \<open>length_str_uuid\<close> for the 36 characters.
\<close>

theorem C5_settings_without_section:
  "load_config posix_env (new_app (Ini []) False False 0) =
     (Raised KeyError, new_app (Ini []) False False 0) \<and>
   uuid_calls (snd (load_config posix_env (new_app (Ini []) False False 0))) = 0 \<and>
   config_file (snd (load_config posix_env (new_app (Ini []) False False 0))) = Ini [] \<and>
   trace (snd (load_config posix_env (new_app (Ini []) False False 0))) = []"
  by (simp add: run_defs input_defs)

subsection \<open>C6: \<open>install_java_if_needed\<close> when the Java directory exists\<close>




subsection \<open>C7: a Java directory without Java\<close>


subsection \<open>C8: what clears the identity\<close>

text \<open>
  C8, as the spec states it: switching to offline mode clears the identity held in
  memory, and so does a failed exchange. The code does otherwise. After a sign-in, picking
  \<open>Offline Mode\<close> leaves the flag, the token, the profile id and the name in place; a
  later exchange that fails for want of network lowers the flag and keeps the other three.
\<close>

theorem C8_identity_outlives_mode_switch:
  "logged_in signed_in_app \<and>
   fst (select_mode ''Offline Mode'' signed_in_app) = Returned () \<and>
   identity (snd (select_mode ''Offline Mode'' signed_in_app)) =
     (True, JStr ''tok-1'', JStr ''p-1'', JStr ''Steve'') \<and>
   fst (login (Fails URLError) signed_in_app) = Returned () \<and>
   identity (snd (login (Fails URLError) signed_in_app)) =
     (False, JStr ''tok-1'', JStr ''p-1'', JStr ''Steve'')"
  by (simp add: run_defs input_defs identity_def)

text \<open>
  C8, amended. \<open>update_mode\<close> never touches the identity: after the user picks a mode,
  offline or not, the flag, the access token, the profile id and the profile name are what
  they were. A failed exchange that \<open>login\<close> handles (it returns, and the reply was not a
  complete one) lowers the signed-in flag and keeps the profile name; when the failure is
  one of transport it keeps the access token and the profile id too.
\<close>

theorem C8_identity_after_switch_and_failure:
  "(select_mode m s = (out, s') \<longrightarrow> identity s' = identity s) \<and>
   (login r s = (Returned (), s'') \<and> (\<forall>d. r = Body d \<longrightarrow> \<not> has_token_and_profile d) \<longrightarrow>
      \<not> logged_in s'' \<and> username s'' = username s \<and>
      (\<forall>e. r = Fails e \<longrightarrow> access_token s'' = access_token s \<and> uuid s'' = uuid s))"
  using select_mode_identity [of m s out s'] login_handled_failure [of r s s'']
  by blast

theorem C8_identity_after_switch_and_failure_witness:
  "identity (snd (select_mode ''Offline Mode'' signed_in_app)) = identity signed_in_app \<and>
   logged_in signed_in_app \<and>
   fst (login (Fails URLError) signed_in_app) = Returned () \<and>
   \<not> logged_in (snd (login (Fails URLError) signed_in_app)) \<and>
   username (snd (login (Fails URLError) signed_in_app)) = username signed_in_app \<and>
   access_token (snd (login (Fails URLError) signed_in_app)) = access_token signed_in_app \<and>
   uuid (snd (login (Fails URLError) signed_in_app)) = uuid signed_in_app"
proof -
  have a: "select_mode ''Offline Mode'' signed_in_app =
             (fst (select_mode ''Offline Mode'' signed_in_app),
              snd (select_mode ''Offline Mode'' signed_in_app))"
    by simp
  have f: "fst (login (Fails URLError) signed_in_app) = Returned ()"
    by (simp add: run_defs input_defs)
  then have b: "login (Fails URLError) signed_in_app =
             (Returned (), snd (login (Fails URLError) signed_in_app))"
    by (metis prod.collapse)
  have l: "logged_in signed_in_app"
    by (simp add: run_defs input_defs)
  from C8_identity_after_switch_and_failure
         [of "''Offline Mode''" signed_in_app "fst (select_mode ''Offline Mode'' signed_in_app)"
             "snd (select_mode ''Offline Mode'' signed_in_app)" "Fails URLError"
             "snd (login (Fails URLError) signed_in_app)"]
       a b f l
  show ?thesis by simp
qed

subsection \<open>C9: the identity of an offline launch\<close>

text \<open>
  C9. In a state where nobody is signed in and the mode is not \<open>TLauncher Mode\<close>, with a
  selected version that has an asset index, \<open>prepare_and_launch\<close> is not held up for
  want of an identity: it spawns once, with the argument vector below. The user name is
  \<open>Player\<close>, the access token is \<open>0\<close>, and the id after \<open>--uuid\<close> is the print of the
  value \<open>uuid.uuid4()\<close> returned for this call, 36 characters long. The call advances
  the count of draws by one and leaves the state offline with the same selection, so the
  next launch prints the next draw: the two ids differ whenever the two values do.
\<close>

theorem C9_offline_launch_identity:
  assumes "cfg_get (config s) ''settings'' ''mode'' = Inr mode"
    and "mode \<noteq> ''TLauncher Mode''"
    and "\<not> logged_in s"
    and "asset_index (version_combo s) = Inr idx"
  shows "\<exists>s1. prepare_and_launch env sf s = (Returned (), s1) \<and>
     spawned (new_events s s1) =
       [[JStr (java_path_of env),
         JStr (''-Djava.library.path='' @ VERSIONS_DIR env),
         JStr ''-cp'', JStr (MINECRAFT_DIR env),
         JStr ''net.minecraft.client.main.Main'',
         JStr ''--username'', JStr ''Player'',
         JStr ''--version'', JStr (version_combo s),
         JStr ''--gameDir'', JStr (MINECRAFT_DIR env),
         JStr ''--assetsDir'', JStr (path_join env (MINECRAFT_DIR env) ''assets''),
         JStr ''--assetIndex'', JStr idx,
         JStr ''--uuid'', JStr (str_uuid (uuid4 env (uuid_calls s))),
         JStr ''--accessToken'', JStr ''0'']] \<and>
     length (str_uuid (uuid4 env (uuid_calls s))) = 36 \<and>
     uuid_calls s1 = Suc (uuid_calls s) \<and>
     cfg_get (config s1) ''settings'' ''mode'' = Inr mode \<and> \<not> logged_in s1 \<and>
     version_combo s1 = version_combo s \<and>
     (uuid4 env (uuid_calls s) \<noteq> uuid4 env (uuid_calls s1) \<longrightarrow>
      str_uuid (uuid4 env (uuid_calls s)) \<noteq> str_uuid (uuid4 env (uuid_calls s1)))"
proof -
  from assms(1) obtain kvs where k: "cfg_section (config s) ''settings'' = Inr kvs"
    using cfg_get_section by blast
  note ij = install_java_if_needed_eq [OF k, of env]
  have v: "version_combo s \<noteq> []"
    using assms(4) by (auto simp: asset_index_def getitem_def)
  have g: "cfg_get (dict_set (config s) ''settings'' (dict_set kvs ''java_path'' (java_path_of env)))
             ''settings'' ''mode'' = Inr mode"
    using assms(1) by (simp add: cfg_get_set [OF k])
  show ?thesis
    using assms v g str_uuid_inj
    by (auto simp add: prepare_and_launch_def ij launch_cmd_def draw_uuid_def popen_raises_def
        emit_def new_events_def length_str_uuid Let_def split: option.splits)
qed

theorem C9_offline_launch_identity_witness:
  "cfg_get (config idle_app) ''settings'' ''mode'' = Inr ''Offline Mode'' \<and>
   \<not> logged_in idle_app \<and>
   asset_index (version_combo idle_app) = Inr ''20'' \<and>
   uuid4 posix_env (uuid_calls idle_app) \<noteq> uuid4 posix_env (Suc (uuid_calls idle_app)) \<and>
   (\<exists>s1. prepare_and_launch posix_env no_fault idle_app = (Returned (), s1) \<and>
      spawned (new_events idle_app s1) =
       [[JStr (java_path_of posix_env),
         JStr (''-Djava.library.path='' @ VERSIONS_DIR posix_env),
         JStr ''-cp'', JStr (MINECRAFT_DIR posix_env),
         JStr ''net.minecraft.client.main.Main'',
         JStr ''--username'', JStr ''Player'',
         JStr ''--version'', JStr (version_combo idle_app),
         JStr ''--gameDir'', JStr (MINECRAFT_DIR posix_env),
         JStr ''--assetsDir'', JStr (path_join posix_env (MINECRAFT_DIR posix_env) ''assets''),
         JStr ''--assetIndex'', JStr ''20'',
         JStr ''--uuid'', JStr (str_uuid (uuid4 posix_env (uuid_calls idle_app))),
         JStr ''--accessToken'', JStr ''0'']] \<and>
      uuid_calls s1 = Suc (uuid_calls idle_app) \<and>
      str_uuid (uuid4 posix_env (uuid_calls idle_app)) \<noteq>
        str_uuid (uuid4 posix_env (uuid_calls s1)))"
proof -
  have m: "cfg_get (config idle_app) ''settings'' ''mode'' = Inr ''Offline Mode''"
    by (simp add: run_defs input_defs)
  have n: "''Offline Mode'' \<noteq> ''TLauncher Mode''"
    by simp
  have l: "\<not> logged_in idle_app"
    by (simp add: input_defs)
  have a: "asset_index (version_combo idle_app) = Inr ''20''"
    by (simp add: run_defs input_defs)
  have u: "uuid4 posix_env (uuid_calls idle_app) \<noteq> uuid4 posix_env (Suc (uuid_calls idle_app))"
    by (simp add: input_defs)
  from C9_offline_launch_identity [OF m n l a, of posix_env no_fault]
  obtain s1 where s1: "prepare_and_launch posix_env no_fault idle_app = (Returned (), s1)"
    and sp: "spawned (new_events idle_app s1) =
       [[JStr (java_path_of posix_env),
         JStr (''-Djava.library.path='' @ VERSIONS_DIR posix_env),
         JStr ''-cp'', JStr (MINECRAFT_DIR posix_env),
         JStr ''net.minecraft.client.main.Main'',
         JStr ''--username'', JStr ''Player'',
         JStr ''--version'', JStr (version_combo idle_app),
         JStr ''--gameDir'', JStr (MINECRAFT_DIR posix_env),
         JStr ''--assetsDir'', JStr (path_join posix_env (MINECRAFT_DIR posix_env) ''assets''),
         JStr ''--assetIndex'', JStr ''20'',
         JStr ''--uuid'', JStr (str_uuid (uuid4 posix_env (uuid_calls idle_app))),
         JStr ''--accessToken'', JStr ''0'']]"
    and c: "uuid_calls s1 = Suc (uuid_calls idle_app)"
    and d: "uuid4 posix_env (uuid_calls idle_app) \<noteq> uuid4 posix_env (uuid_calls s1) \<longrightarrow>
      str_uuid (uuid4 posix_env (uuid_calls idle_app)) \<noteq> str_uuid (uuid4 posix_env (uuid_calls s1))"
    by blast
  from u c d have "str_uuid (uuid4 posix_env (uuid_calls idle_app)) \<noteq>
        str_uuid (uuid4 posix_env (uuid_calls s1))"
    by simp
  with m l a u s1 sp c show ?thesis by blast
qed

subsection \<open>C10: the asset index of a version without a dot\<close>

text \<open>
  C10. \<open>version.split('.')[1]\<close> has a value exactly when the version id contains a dot.
  When a launch gets as far as building the command (the mode check passed and the
  selection is not empty) with a selected id that has no dot, the index raises
  \<open>IndexError\<close> out of \<open>prepare_and_launch\<close>: \<open>install_java_if_needed\<close> has run, and
  nothing is spawned.
\<close>

theorem C10_asset_index_needs_dot:
  "((\<exists>idx. asset_index v = Inr idx) \<longleftrightarrow> CHR ''.'' \<in> set v) \<and>
   (cfg_get (config s) ''settings'' ''mode'' = Inr mode \<and>
    (mode = ''TLauncher Mode'' \<longrightarrow> logged_in s) \<and>
    version_combo s \<noteq> [] \<and> CHR ''.'' \<notin> set (version_combo s) \<longrightarrow>
      asset_index (version_combo s) = Inl IndexError \<and>
      prepare_and_launch env sf s = (Raised IndexError, snd (install_java_if_needed env s)) \<and>
      spawned (new_events s (snd (prepare_and_launch env sf s))) = [])"
proof (intro conjI impI)
  show "(\<exists>idx. asset_index v = Inr idx) \<longleftrightarrow> CHR ''.'' \<in> set v"
    by (rule asset_index_total)
next
  assume h: "cfg_get (config s) ''settings'' ''mode'' = Inr mode \<and>
    (mode = ''TLauncher Mode'' \<longrightarrow> logged_in s) \<and>
    version_combo s \<noteq> [] \<and> CHR ''.'' \<notin> set (version_combo s)"
  then obtain kvs where k: "cfg_section (config s) ''settings'' = Inr kvs"
    using cfg_get_section by blast
  note ij = install_java_if_needed_eq [OF k, of env]
  show a: "asset_index (version_combo s) = Inl IndexError"
    using h by (simp add: asset_index_no_dot)
  show r: "prepare_and_launch env sf s = (Raised IndexError, snd (install_java_if_needed env s))"
    using h by (auto simp add: prepare_and_launch_def ij launch_cmd_def a)
  show "spawned (new_events s (snd (prepare_and_launch env sf s))) = []"
    by (simp add: r) (simp add: ij new_events_def)
qed

theorem C10_asset_index_needs_dot_witness:
  "cfg_get (config (idle_app\<lparr>version_combo := ''23w13a''\<rparr>)) ''settings'' ''mode'' =
     Inr ''Offline Mode'' \<and>
   CHR ''.'' \<notin> set ''23w13a'' \<and>
   asset_index ''23w13a'' = Inl IndexError \<and>
   prepare_and_launch posix_env no_fault (idle_app\<lparr>version_combo := ''23w13a''\<rparr>) =
     (Raised IndexError,
      snd (install_java_if_needed posix_env (idle_app\<lparr>version_combo := ''23w13a''\<rparr>))) \<and>
   spawned (new_events (idle_app\<lparr>version_combo := ''23w13a''\<rparr>)
     (snd (prepare_and_launch posix_env no_fault (idle_app\<lparr>version_combo := ''23w13a''\<rparr>)))) = []"
proof -
  have m: "cfg_get (config (idle_app\<lparr>version_combo := ''23w13a''\<rparr>)) ''settings'' ''mode'' =
     Inr ''Offline Mode''"
    by (simp add: run_defs input_defs)
  have d: "CHR ''.'' \<notin> set ''23w13a''"
    by simp
  have n: "''Offline Mode'' \<noteq> ''TLauncher Mode''"
    by simp
  have v: "version_combo (idle_app\<lparr>version_combo := ''23w13a''\<rparr>) \<noteq> []"
    by simp
  have d': "CHR ''.'' \<notin> set (version_combo (idle_app\<lparr>version_combo := ''23w13a''\<rparr>))"
    by simp
  have e: "asset_index (version_combo (idle_app\<lparr>version_combo := ''23w13a''\<rparr>)) =
             asset_index ''23w13a''"
    by simp
  from C10_asset_index_needs_dot
         [of "''23w13a''" "idle_app\<lparr>version_combo := ''23w13a''\<rparr>" "''Offline Mode''"
             posix_env no_fault]
       m n v d'
  have "asset_index (version_combo (idle_app\<lparr>version_combo := ''23w13a''\<rparr>)) = Inl IndexError \<and>
      prepare_and_launch posix_env no_fault (idle_app\<lparr>version_combo := ''23w13a''\<rparr>) =
        (Raised IndexError,
         snd (install_java_if_needed posix_env (idle_app\<lparr>version_combo := ''23w13a''\<rparr>))) \<and>
      spawned (new_events (idle_app\<lparr>version_combo := ''23w13a''\<rparr>)
        (snd (prepare_and_launch posix_env no_fault (idle_app\<lparr>version_combo := ''23w13a''\<rparr>)))) = []"
    by blast
  with m d e show ?thesis
    by metis
qed

end
